theory Spec2Isabelle
  imports Main "HOL-Library.AList" "HOL-Library.Sublist"
begin

section \<open>JavaScript values\<close>

text \<open>
  The renderer is JavaScript. The values that reach the code under study are modelled as
  follows. A number is \<open>NaN\<close> or an integer (pixel sizes, coordinates, zoom levels);
  fractions and infinities are outside the model. A request descriptor is a JavaScript array
  \<open>[url, width, height]\<close>, modelled as the list of its elements. An object used as a
  dictionary is modelled by its own properties only: the properties every object inherits
  from \<open>Object.prototype\<close> are outside the model.
\<close>

datatype error = TypeError

datatype jsnum = NaN | Fin int

datatype jsval = JUndefined | JNull | JNum jsnum | JStr string

text \<open>The argument \<open>url\<close> of the cache operations: an array, or any other value.\<close>

datatype key = KArr "jsval list" | KVal jsval

text \<open>
  Helpers and constants the file imports from \<open>core/util\<close> and \<open>core/Browser\<close>, and the
  methods of \<open>PointExtent\<close>; their code is not part of the sources at hand, so they are
  parameters of the model. \<open>strToNumber\<close> is the conversion of a string to a number
  (\<open>+s\<close>), which is not modelled either.

  A call that throws is the value \<open>Inl TypeError\<close>; the model does not describe the
  state an exception leaves behind. Names follow the source, without the leading underscore
  of private members; \<open>this.context\<close> is \<open>ctxt\<close>, the field \<open>this.resources\<close> of the
  renderer is \<open>resourceCache\<close>.
\<close>

text \<open>
  An element of a batch of requests: \<open>null\<close> or \<open>undefined\<close>, or an array, given by its
  address in the store of arrays.
\<close>

datatype ref = RNull | RArr nat

record 'e env =
  isSVG :: "jsval \<Rightarrow> nat"
  IS_NODE :: bool
  retina :: bool
  strToNumber :: "string \<Rightarrow> jsnum"
  intersects :: "'e \<Rightarrow> 'e option \<Rightarrow> bool"
  isArrayHasData :: "ref list \<Rightarrow> bool"

subsection \<open>Coercions\<close>

text \<open>\<open>!!v\<close>: the values that count as true in a condition.\<close>

fun truthy :: "jsval \<Rightarrow> bool" where
  "truthy JUndefined = False"
| "truthy JNull = False"
| "truthy (JNum NaN) = False"
| "truthy (JNum (Fin i)) = (i \<noteq> 0)"
| "truthy (JStr s) = (s \<noteq> [])"

fun truthy_key :: "key \<Rightarrow> bool" where
  "truthy_key (KArr xs) = True"
| "truthy_key (KVal v) = truthy v"

text \<open>\<open>+v\<close>: unary plus.\<close>

fun toNumber :: "('e, 'x) env_scheme \<Rightarrow> jsval \<Rightarrow> jsnum" where
  "toNumber E JUndefined = NaN"
| "toNumber E JNull = Fin 0"
| "toNumber E (JNum n) = n"
| "toNumber E (JStr s) = strToNumber E s"

text \<open>\<open>a > b\<close> on numbers: false as soon as one side is \<open>NaN\<close>.\<close>

fun js_gt :: "jsnum \<Rightarrow> jsnum \<Rightarrow> bool" where
  "js_gt (Fin a) (Fin b) = (a > b)"
| "js_gt _ _ = False"

fun js_lt :: "jsnum \<Rightarrow> jsnum \<Rightarrow> bool" where
  "js_lt (Fin a) (Fin b) = (a < b)"
| "js_lt _ _ = False"

text \<open>\<open>n * k\<close> for an integer constant \<open>k\<close>.\<close>

fun js_times :: "jsnum \<Rightarrow> int \<Rightarrow> jsnum" where
  "js_times NaN k = NaN"
| "js_times (Fin a) k = Fin (a * k)"

text \<open>Decimal rendering of an integer, as \<open>String(n)\<close> gives it.\<close>

definition digit :: "nat \<Rightarrow> char" where
  "digit n = ''0123456789'' ! n"

fun show_nat :: "nat \<Rightarrow> string" where
  "show_nat n = (if n < 10 then [digit n] else show_nat (n div 10) @ [digit (n mod 10)])"

declare show_nat.simps [simp del]

definition show_int :: "int \<Rightarrow> string" where
  "show_int i = (if i < 0 then CHR ''-'' # show_nat (nat (- i)) else show_nat (nat i))"

text \<open>\<open>String(v)\<close>, which is also the property name \<open>obj[v]\<close> reads and writes.\<close>

fun toString :: "jsval \<Rightarrow> string" where
  "toString JUndefined = ''undefined''"
| "toString JNull = ''null''"
| "toString (JNum NaN) = ''NaN''"
| "toString (JNum (Fin i)) = show_int i"
| "toString (JStr s) = s"

text \<open>\<open>xs.join('-')\<close>: \<open>undefined\<close> and \<open>null\<close> elements give the empty string.\<close>

fun join_elem :: "jsval \<Rightarrow> string" where
  "join_elem JUndefined = []"
| "join_elem JNull = []"
| "join_elem v = toString v"

fun join :: "jsval list \<Rightarrow> string" where
  "join [] = []"
| "join [v] = join_elem v"
| "join (v # w # vs) = join_elem v @ CHR ''-'' # join (w # vs)"

text \<open>
  \<open>url[i]\<close> where \<open>url\<close> is not \<open>null\<close> or \<open>undefined\<close>: an element of the array or
  \<open>undefined\<close> past its end, a character of a string, \<open>undefined\<close> on a number.
\<close>

fun idx :: "key \<Rightarrow> nat \<Rightarrow> jsval" where
  "idx (KArr xs) i = (if i < length xs then xs ! i else JUndefined)"
| "idx (KVal (JStr s)) i = (if i < length s then JStr [s ! i] else JUndefined)"
| "idx (KVal v) i = JUndefined"

text \<open>Whether \<open>url[i]\<close> can be evaluated at all: it throws on \<open>null\<close> and \<open>undefined\<close>.\<close>

fun indexable :: "key \<Rightarrow> bool" where
  "indexable (KVal JUndefined) = False"
| "indexable (KVal JNull) = False"
| "indexable k = True"

section \<open>ResourceCache\<close>

text \<open>
  \<open>resources\<close> is the object \<open>this.resources\<close>: the list of its own properties, a new
  property at the end (the order plays no part in what follows).
  \<open>errors\<close> is the set of property names of \<open>this._errors\<close> (each is assigned \<open>1\<close>).
\<close>

record 'a entry =
  image_of :: 'a
  width :: jsnum
  height :: jsnum

record 'a ResourceCache =
  resources :: "(string \<times> 'a entry) list"
  errors :: "string set"

definition new_ResourceCache :: "'a ResourceCache" where
  "new_ResourceCache = \<lparr>resources = [], errors = {}\<rparr>"

fun getImgUrl :: "key \<Rightarrow> jsval" where
  "getImgUrl (KArr xs) = idx (KArr xs) 0"
| "getImgUrl (KVal v) = v"

definition addResource ::
  "('e, 'x) env_scheme \<Rightarrow> 'a ResourceCache \<Rightarrow> key \<Rightarrow> 'a \<Rightarrow> error + 'a ResourceCache" where
  "addResource E c url img =
     (if \<not> indexable url then Inl TypeError
      else Inr (c\<lparr>resources :=
             AList.update (toString (idx url 0))
               \<lparr>image_of = img, width = toNumber E (idx url 1), height = toNumber E (idx url 2)\<rparr>
               (resources c)\<rparr>))"

definition isResourceLoaded ::
  "('e, 'x) env_scheme \<Rightarrow> 'a ResourceCache \<Rightarrow> key \<Rightarrow> bool \<Rightarrow> bool" where
  "isResourceLoaded E c url checkSVG =
     (if \<not> truthy_key url then False
      else let imgUrl = toString (getImgUrl url) in
        if imgUrl \<in> errors c then True
        else case map_of (resources c) imgUrl of
          None \<Rightarrow> False
        | Some img \<Rightarrow>
            if checkSVG \<and> isSVG E (idx url 0) \<noteq> 0 \<and>
               (js_gt (toNumber E (idx url 1)) (width img) \<or>
                js_gt (toNumber E (idx url 2)) (height img))
            then False else True)"

text \<open>\<open>getImage\<close> returns \<open>null\<close> (\<open>None\<close>) or the image of the entry.\<close>

definition getImage ::
  "('e, 'x) env_scheme \<Rightarrow> 'a ResourceCache \<Rightarrow> key \<Rightarrow> error + 'a option" where
  "getImage E c url =
     (let imgUrl = toString (getImgUrl url) in
      if \<not> isResourceLoaded E c url False \<or> imgUrl \<in> errors c then Inr None
      else case map_of (resources c) imgUrl of
        None \<Rightarrow> Inl TypeError
      | Some img \<Rightarrow> Inr (Some (image_of img)))"

definition markErrorResource :: "'a ResourceCache \<Rightarrow> key \<Rightarrow> 'a ResourceCache" where
  "markErrorResource c url = c\<lparr>errors := insert (toString (getImgUrl url)) (errors c)\<rparr>"

text \<open>The \<open>for (const p in res.resources)\<close> loop of \<open>merge\<close>.\<close>

fun merge_loop ::
  "('e, 'x) env_scheme \<Rightarrow> 'a ResourceCache \<Rightarrow> (string \<times> 'a entry) list \<Rightarrow> error + 'a ResourceCache"
where
  "merge_loop E c [] = Inr c"
| "merge_loop E c ((p, img) # ps) =
     (case addResource E c (KArr [JStr p, JNum (width img), JNum (height img)]) (image_of img) of
        Inl e \<Rightarrow> Inl e
      | Inr c' \<Rightarrow> merge_loop E c' ps)"

definition merge ::
  "('e, 'x) env_scheme \<Rightarrow> 'a ResourceCache \<Rightarrow> 'a ResourceCache option \<Rightarrow> error + 'a ResourceCache"
where
  "merge E c res = (case res of None \<Rightarrow> Inr c | Some r \<Rightarrow> merge_loop E c (resources r))"

subsection \<open>Sequences of cache operations\<close>

text \<open>
  The methods of \<open>ResourceCache\<close> as operations on one cache instance. \<open>addResource\<close>
  throws before it writes, and \<open>isResourceLoaded\<close> and \<open>getImage\<close> only read, so these
  leave the cache as it was.
\<close>

datatype 'a cache_op =
    OpAddResource key 'a
  | OpMarkErrorResource key
  | OpMerge "'a ResourceCache option"
  | OpIsResourceLoaded key bool
  | OpGetImage key

fun apply_cache_op ::
  "('e, 'x) env_scheme \<Rightarrow> 'a ResourceCache \<Rightarrow> 'a cache_op \<Rightarrow> 'a ResourceCache" where
  "apply_cache_op E c (OpAddResource url img) =
     (case addResource E c url img of Inl e \<Rightarrow> c | Inr c' \<Rightarrow> c')"
| "apply_cache_op E c (OpMarkErrorResource url) = markErrorResource c url"
| "apply_cache_op E c (OpMerge res) =
     (case merge E c res of Inl e \<Rightarrow> c | Inr c' \<Rightarrow> c')"
| "apply_cache_op E c (OpIsResourceLoaded url checkSVG) = c"
| "apply_cache_op E c (OpGetImage url) = c"

fun run_cache_ops ::
  "('e, 'x) env_scheme \<Rightarrow> 'a ResourceCache \<Rightarrow> 'a cache_op list \<Rightarrow> 'a ResourceCache" where
  "run_cache_ops E c [] = c"
| "run_cache_ops E c (op # ops) = run_cache_ops E (apply_cache_op E c op) ops"

section \<open>The host map and the layer\<close>

text \<open>
  The renderer asks the map and the layer through their methods; a record holds the answers
  they give at the time of the call. \<open>getMask\<close> is the 2D extent the mask's painter
  reports (\<open>mask._getPainter().get2DExtent()\<close>), or \<open>None\<close> when the layer has no mask.
  \<open>isEmpty\<close> is \<open>None\<close> when the layer has no such method.
\<close>

record point =
  point_x :: jsnum
  point_y :: jsnum

record msize =
  size_width :: jsnum
  size_height :: jsnum

record 'e hostmap =
  getZoom :: jsnum
  getPitch :: jsnum
  getSize :: msize
  isInteracting :: bool
  isMoving :: bool
  isZooming :: bool
  isRotating :: bool
  get2DExtent :: 'e
  containerPointToPoint0 :: point

record options =
  forceRenderOnMoving :: bool
  globalCompositeOperation :: "string option"
  crossOrigin :: "string option"

record 'e layer =
  layer_getMap :: "'e hostmap option"
  isVisible :: bool
  isEmpty :: "bool option"
  getMask :: "'e option"
  layer_options :: options

section \<open>CanvasRenderer\<close>

text \<open>
  Calls that leave the renderer (on the drawing context, on \<open>Canvas2D\<close>, events fired on
  the layer, hooks of the subclass, the console) are recorded in \<open>trace\<close>, in call order.
  The hooks of the subclass are opaque: the model records that they are called.
\<close>

datatype action =
    CreateCanvas jsnum jsnum
  | ClearRect jsnum jsnum
  | CtxRestore
  | CtxSave
  | CtxClip
  | CtxScale int int
  | MaskPaint
  | GetImageData jsnum jsnum
  | Fire string
  | ConsoleWarn
  | OnCanvasCreate
  | OnAdd
  | Draw

record canvas =
  canvas_width :: jsnum
  canvas_height :: jsnum

text \<open>
  \<open>pixelAlpha x y\<close> is \<open>getImageData(x, y, 1, 1).data[3]\<close>, or \<open>None\<close> when the read
  throws (a canvas tainted by a resource of another origin).
\<close>

record context2d =
  pixelAlpha :: "jsnum \<Rightarrow> jsnum \<Rightarrow> nat option"
  ctx_globalCompositeOperation :: "string option"

record ('a, 'e) CanvasRenderer =
  layer :: "'e layer option"
  resourceCache :: "'a ResourceCache option"
  canvas :: "canvas option"
  ctxt :: "context2d option"
  toRedraw :: bool
  loadingResource :: bool
  renderComplete :: bool
  canvasUpdated :: bool
  painted :: bool
  clipped :: bool
  errorThrown :: bool
  renderZoom :: "jsnum option"
  extent2D :: "'e option"
  northWest :: "point option"
  maskExtent :: "'e option"
  drawTime :: int
  trace :: "action list"

text \<open>
  What the subclass provides: which optional methods it defines, what \<open>checkResources\<close>
  returns (\<open>None\<close> when it is not defined), and the time \<open>draw\<close> takes
  (\<open>now() - t\<close>).
\<close>

record hooks =
  drawOnInteracting :: bool
  onAdd :: bool
  onCanvasCreate :: bool
  checkResources :: "ref list option"
  draw_elapsed :: int

definition log :: "action list \<Rightarrow> ('a, 'e) CanvasRenderer \<Rightarrow> ('a, 'e) CanvasRenderer" where
  "log as r = r\<lparr>trace := trace r @ as\<rparr>"

definition getMap :: "('a, 'e) CanvasRenderer \<Rightarrow> 'e hostmap option" where
  "getMap r = (case layer r of None \<Rightarrow> None | Some l \<Rightarrow> layer_getMap l)"

definition needToRedraw :: "hooks \<Rightarrow> ('a, 'e) CanvasRenderer \<Rightarrow> error + bool" where
  "needToRedraw H r =
     (if loadingResource r then Inr False
      else if toRedraw r then Inr True
      else if \<not> drawOnInteracting H then Inr False
      else case getMap r of
        None \<Rightarrow> Inl TypeError
      | Some m \<Rightarrow>
          if isInteracting m then
            (case layer r of
               None \<Rightarrow> Inl TypeError
             | Some l \<Rightarrow>
                 Inr (\<not> (\<not> truthy (JNum (getPitch m)) \<and> isMoving m \<and> \<not> isZooming m \<and>
                          \<not> isRotating m \<and> \<not> forceRenderOnMoving (layer_options l))))
          else Inr False)"


definition setToRedraw :: "('a, 'e) CanvasRenderer \<Rightarrow> ('a, 'e) CanvasRenderer" where
  "setToRedraw r = r\<lparr>toRedraw := True\<rparr>"


definition isBlank :: "('a, 'e) CanvasRenderer \<Rightarrow> bool" where
  "isBlank r = (if \<not> painted r then True else False)"

definition hitDetect ::
  "('a, 'e) CanvasRenderer \<Rightarrow> point \<Rightarrow> error + (bool \<times> ('a, 'e) CanvasRenderer)" where
  "hitDetect r p =
     (case ctxt r of
        None \<Rightarrow> Inr (False, r)
      | Some ctx \<Rightarrow>
         (case layer r of
            None \<Rightarrow> Inl TypeError
          | Some l \<Rightarrow>
              if isEmpty l = Some True \<or> isBlank r \<or> errorThrown r then Inr (False, r)
              else
               (case getMap r of
                  None \<Rightarrow> Inl TypeError
                | Some m \<Rightarrow>
                    let size = getSize m in
                    if js_lt (point_x p) (Fin 0) \<or> js_gt (point_x p) (size_width size) \<or>
                       js_lt (point_y p) (Fin 0) \<or> js_gt (point_y p) (size_height size)
                    then Inr (False, r)
                    else
                      let r1 = log [GetImageData (point_x p) (point_y p)] r in
                      (case pixelAlpha ctx (point_x p) (point_y p) of
                         Some a \<Rightarrow> (if a > 0 then Inr (True, r1) else Inr (False, r1))
                       | None \<Rightarrow>
                          (if \<not> errorThrown r1
                           then Inr (False, (log [ConsoleWarn] r1)\<lparr>errorThrown := True\<rparr>)
                           else Inr (False, r1))))))"


definition blank_context :: context2d where
  "blank_context = \<lparr>pixelAlpha = (\<lambda>x y. Some 0), ctx_globalCompositeOperation = None\<rparr>"

definition createCanvas ::
  "('e, 'x) env_scheme \<Rightarrow> hooks \<Rightarrow> ('a, 'e) CanvasRenderer \<Rightarrow> error + ('a, 'e) CanvasRenderer"
where
  "createCanvas E H r =
     (if canvas r \<noteq> None then Inr r
      else case getMap r of
        None \<Rightarrow> Inl TypeError
      | Some m \<Rightarrow>
         (case layer r of
            None \<Rightarrow> Inl TypeError
          | Some l \<Rightarrow>
              let size = getSize m;
                  k = (if retina E then 2 else 1);
                  w = js_times (size_width size) k;
                  h = js_times (size_height size) k;
                  r1 = (log [CreateCanvas w h] r)
                         \<lparr>canvas := Some \<lparr>canvas_width = w, canvas_height = h\<rparr>,
                          ctxt := Some blank_context\<rparr>;
                  r2 = (case globalCompositeOperation (layer_options l) of
                          None \<Rightarrow> r1
                        | Some op \<Rightarrow>
                            if op = [] then r1
                            else r1\<lparr>ctxt :=
                                   Some (blank_context\<lparr>ctx_globalCompositeOperation := Some op\<rparr>)\<rparr>);
                  r3 = (if retina E then log [CtxScale k k] r2 else r2);
                  r4 = (if onCanvasCreate H then log [OnCanvasCreate] r3 else r3)
              in Inr r4))"

definition clearCanvas :: "('a, 'e) CanvasRenderer \<Rightarrow> ('a, 'e) CanvasRenderer" where
  "clearCanvas r =
     (case canvas r of
        None \<Rightarrow> r
      | Some cv \<Rightarrow> log [ClearRect (canvas_width cv) (canvas_height cv)] r)"

definition prepareCanvas ::
  "('e, 'x) env_scheme \<Rightarrow> hooks \<Rightarrow> ('a, 'e) CanvasRenderer \<Rightarrow>
     error + ('e option \<times> ('a, 'e) CanvasRenderer)"
where
  "prepareCanvas E H r =
     (case (if clipped r
            then (if ctxt r = None then Inl TypeError
                  else Inr ((log [CtxRestore] r)\<lparr>clipped := False\<rparr>))
            else Inr r) of
        Inl e \<Rightarrow> Inl e
      | Inr r1 \<Rightarrow>
         (case (if canvas r1 = None then createCanvas E H r1 else Inr (clearCanvas r1)) of
            Inl e \<Rightarrow> Inl e
          | Inr r2 \<Rightarrow>
              let r3 = r2\<lparr>maskExtent := None\<rparr> in
              (case layer r3 of
                 None \<Rightarrow> Inl TypeError
               | Some l \<Rightarrow>
                  (case getMask l of
                     None \<Rightarrow> Inr (None, log [Fire ''renderstart''] r3)
                   | Some maskExtent2D \<Rightarrow>
                       let r4 = r3\<lparr>maskExtent := Some maskExtent2D\<rparr> in
                       if \<not> intersects E maskExtent2D (extent2D r4)
                       then Inr (Some maskExtent2D, log [Fire ''renderstart''] r4)
                       else
                         if ctxt r4 = None then Inl TypeError
                         else Inr (Some maskExtent2D,
                                   log [Fire ''renderstart'']
                                     ((log [CtxSave, MaskPaint, CtxClip] r4)\<lparr>clipped := True\<rparr>))))))"




subsection \<open>Loading resources\<close>

text \<open>
  The request arrays are objects: \<open>_promiseResource\<close> multiplies the size hints of an SVG
  request in place, and the same array may occur more than once in a batch. The store maps
  the address of an array to its elements; a batch is a list of addresses (\<open>RArr\<close>) and of
  \<open>null\<close> or \<open>undefined\<close> elements (\<open>RNull\<close>).

  A \<open>fetch\<close> stands for one call of \<open>loadImage(img, url)\<close>: the array passed, its elements
  when \<open>_promiseResource\<close> was entered, and its elements when \<open>loadImage\<close> is called.
  A promise is \<open>Resolved\<close> when the executor resolves it at once, and \<open>Pending\<close> on a
  fetch otherwise. The executor runs inside \<open>new Promise\<close>, before \<open>push\<close> returns.
  \<open>_promiseResource\<close> reads \<open>this.layer.options\<close> before the promise is made, and
  throws on a renderer without a layer; \<open>loadResources\<close> sets \<open>this.resources\<close> before
  it calls \<open>_promiseResource\<close>.
\<close>

type_synonym store = "nat \<Rightarrow> jsval list"

record fetch =
  fetch_ref :: nat
  requested :: "jsval list"
  sent :: "jsval list"
  fetch_crossOrigin :: "string option"

datatype promise = Resolved nat | Pending fetch

definition amplify :: "('e, 'x) env_scheme \<Rightarrow> jsval list \<Rightarrow> jsval list" where
  "amplify E url =
     (if isSVG E (idx (KArr url) 0) \<noteq> 0 \<and> \<not> IS_NODE E then
        let u1 = (if truthy (idx (KArr url) 1)
                  then url[1 := JNum (js_times (toNumber E (idx (KArr url) 1)) 2)] else url);
            u2 = (if truthy (idx (KArr u1) 2)
                  then u1[2 := JNum (js_times (toNumber E (idx (KArr u1) 2)) 2)] else u1)
        in u2
      else url)"

definition promiseResource ::
  "('e, 'x) env_scheme \<Rightarrow> ('a, 'e) CanvasRenderer \<Rightarrow> store \<Rightarrow> nat \<Rightarrow> error + (store \<times> promise)"
where
  "promiseResource E r st a =
     (case layer r of
        None \<Rightarrow> Inl TypeError
      | Some l \<Rightarrow>
         (case resourceCache r of
            None \<Rightarrow> Inl TypeError
          | Some c \<Rightarrow>
              let url = st a in
              if isResourceLoaded E c (KArr url) True then Inr (st, Resolved a)
              else
                let url' = amplify E url in
                Inr (st(a := url'),
                     Pending \<lparr>fetch_ref = a, requested = url, sent = url',
                              fetch_crossOrigin =
                                (case crossOrigin (layer_options l) of
                                   None \<Rightarrow> None
                                 | Some s \<Rightarrow> if s = [] then None else Some s)\<rparr>)))"

text \<open>
  The loop of \<open>loadResources\<close>, from the last request to the first; \<open>cache\<close> is the set of
  property names of the local object \<open>cache\<close>.
\<close>

fun loadResources_loop ::
  "('e, 'x) env_scheme \<Rightarrow> ('a, 'e) CanvasRenderer \<Rightarrow> 'a ResourceCache \<Rightarrow> string set \<Rightarrow> store \<Rightarrow>
     promise list \<Rightarrow> ref list \<Rightarrow> error + (store \<times> promise list)"
where
  "loadResources_loop E r c cache st promises [] = Inr (st, promises)"
| "loadResources_loop E r c cache st promises (RNull # us) =
     loadResources_loop E r c cache st promises us"
| "loadResources_loop E r c cache st promises (RArr a # us) =
     (let url = st a in
      if url = [] \<or> join url \<in> cache then loadResources_loop E r c cache st promises us
      else
        let cache' = insert (join url) cache in
        if \<not> isResourceLoaded E c (KArr url) True then
          (case promiseResource E r st a of
             Inl e \<Rightarrow> Inl e
           | Inr (st', p) \<Rightarrow> loadResources_loop E r c cache' st' (promises @ [p]) us)
        else loadResources_loop E r c cache' st promises us)"

definition loadResources ::
  "('e, 'x) env_scheme \<Rightarrow> ('a, 'e) CanvasRenderer \<Rightarrow> store \<Rightarrow> ref list \<Rightarrow>
     error + (('a, 'e) CanvasRenderer \<times> store \<times> promise list)"
where
  "loadResources E r st resourceUrls =
     (let c = (case resourceCache r of None \<Rightarrow> new_ResourceCache | Some c \<Rightarrow> c);
          r1 = r\<lparr>resourceCache := Some c\<rparr>
      in if isArrayHasData E resourceUrls then
           (case loadResources_loop E r1 c {} st [] (rev resourceUrls) of
              Inl e \<Rightarrow> Inl e
            | Inr (st', promises) \<Rightarrow> Inr (r1, st', promises))
         else Inr (r1, st, []))"

definition fetches :: "promise list \<Rightarrow> fetch list" where
  "fetches ps = concat (map (\<lambda>p. case p of Resolved a \<Rightarrow> [] | Pending f \<Rightarrow> [f]) ps)"

subsection \<open>The render cycle\<close>


definition resourcesLoaded :: "('a, 'e) CanvasRenderer \<Rightarrow> ('a, 'e) CanvasRenderer" where
  "resourcesLoaded r =
     (let r1 = r\<lparr>loadingResource := False\<rparr> in
      if layer r1 \<noteq> None then setToRedraw (log [Fire ''resourceload''] r1) else r1)"

section \<open>Concrete inputs\<close>

text \<open>
  The values used where a statement is evaluated on a concrete input. For the parameters:
  \<open>isSVG\<close> answers 1 on a string of more than four characters that ends in \<open>.svg\<close> and 0
  elsewhere, the code runs in a browser without a retina display, an extent is a box
  \<open>(xmin, ymin, xmax, ymax)\<close> and two boxes intersect when they share a point,
  \<open>isArrayHasData\<close> holds of the arrays that are not empty.
\<close>

definition svg_suffix :: "jsval \<Rightarrow> nat" where
  "svg_suffix v =
     (case v of
        JStr s \<Rightarrow> if length s > 4 \<and> drop (length s - 4) s = ''.svg'' then 1 else 0
      | _ \<Rightarrow> 0)"

type_synonym box = "int \<times> int \<times> int \<times> int"

definition box_intersects :: "box \<Rightarrow> box option \<Rightarrow> bool" where
  "box_intersects a b =
     (case (a, b) of
        (_, None) \<Rightarrow> False
      | ((x0, y0, x1, y1), Some (u0, v0, u1, v1)) \<Rightarrow>
          max x0 u0 \<le> min x1 u1 \<and> max y0 v0 \<le> min y1 v1)"

definition browser :: "box env" where
  "browser =
     \<lparr>isSVG = svg_suffix, IS_NODE = False, retina = False, strToNumber = (\<lambda>s. NaN),
      intersects = box_intersects, isArrayHasData = (\<lambda>xs. xs \<noteq> [])\<rparr>"

definition static_layer :: hooks where
  "static_layer =
     \<lparr>drawOnInteracting = False, onAdd = False, onCanvasCreate = False,
      checkResources = None, draw_elapsed = 3\<rparr>"

definition interactive_layer :: hooks where
  "interactive_layer = static_layer\<lparr>drawOnInteracting := True\<rparr>"

definition idle_map :: "box hostmap" where
  "idle_map =
     \<lparr>getZoom = Fin 5, getPitch = Fin 0,
      getSize = \<lparr>size_width = Fin 800, size_height = Fin 600\<rparr>,
      isInteracting = False, isMoving = False, isZooming = False, isRotating = False,
      get2DExtent = (0, 0, 800, 600),
      containerPointToPoint0 = \<lparr>point_x = Fin 0, point_y = Fin 0\<rparr>\<rparr>"

definition panning_map :: "box hostmap" where
  "panning_map = idle_map\<lparr>isInteracting := True, isMoving := True\<rparr>"

definition zooming_map :: "box hostmap" where
  "zooming_map = idle_map\<lparr>isInteracting := True, isZooming := True\<rparr>"

definition layer_on :: "box hostmap \<Rightarrow> box layer" where
  "layer_on m =
     \<lparr>layer_getMap = Some m, isVisible = True, isEmpty = Some False, getMask = None,
      layer_options =
        \<lparr>forceRenderOnMoving = False, globalCompositeOperation = None, crossOrigin = None\<rparr>\<rparr>"

text \<open>The renderer as its constructor leaves it.\<close>

definition new_CanvasRenderer :: "'e layer \<Rightarrow> ('a, 'e) CanvasRenderer" where
  "new_CanvasRenderer l =
     \<lparr>layer = Some l, resourceCache = None, canvas = None, ctxt = None,
      toRedraw = True, loadingResource = False, renderComplete = False,
      canvasUpdated = False, painted = False, clipped = False, errorThrown = False,
      renderZoom = None, extent2D = None, northWest = None, maskExtent = None,
      drawTime = 0, trace = []\<rparr>"

definition settled :: "box hostmap \<Rightarrow> (nat, box) CanvasRenderer" where
  "settled m = (new_CanvasRenderer (layer_on m))\<lparr>toRedraw := False\<rparr>"

definition painted_canvas :: "box layer \<Rightarrow> (nat, box) CanvasRenderer" where
  "painted_canvas l =
     (new_CanvasRenderer l)
       \<lparr>canvas := Some \<lparr>canvas_width = Fin 800, canvas_height = Fin 600\<rparr>,
        ctxt := Some (blank_context\<lparr>pixelAlpha := (\<lambda>x y. Some 255)\<rparr>),
        toRedraw := False, painted := True, extent2D := Some (0, 0, 800, 600)\<rparr>"

definition svg10 :: "nat ResourceCache" where
  "svg10 =
     \<lparr>resources = [(''a.svg'', \<lparr>image_of = 7, width = Fin 10, height = Fin 10\<rparr>)],
      errors = {}\<rparr>"

definition other_cache :: "nat ResourceCache" where
  "other_cache =
     \<lparr>resources = [(''a.svg'', \<lparr>image_of = 8, width = Fin 32, height = Fin 32\<rparr>),
                   (''b.png'', \<lparr>image_of = 9, width = NaN, height = NaN\<rparr>)],
      errors = {''c.png''}\<rparr>"



definition masked_renderer :: "(nat, box) CanvasRenderer" where
  "masked_renderer = painted_canvas ((layer_on idle_map)\<lparr>getMask := Some (900, 900, 950, 950)\<rparr>)"

definition batch_store :: store where
  "batch_store =
     (\<lambda>a. [])(0 := [JStr ''a.svg'', JNum (Fin 10), JNum (Fin 10)],
              1 := [JStr ''a.svg'', JNum (Fin 20), JNum (Fin 20)],
              2 := [JStr ''a.svg'', JNum (Fin 10), JNum (Fin 10)])"

section \<open>Properties of the resource cache\<close>

lemma addResource_KArr:
  "addResource E c (KArr xs) img =
     Inr (c\<lparr>resources :=
            AList.update (toString (idx (KArr xs) 0))
              \<lparr>image_of = img, width = toNumber E (idx (KArr xs) 1),
               height = toNumber E (idx (KArr xs) 2)\<rparr>
              (resources c)\<rparr>)"
  by (simp add: addResource_def)

lemma errors_addResource: "addResource E c url img = Inr c' \<Longrightarrow> errors c' = errors c"
  by (auto simp add: addResource_def split: if_splits)

lemma errors_merge_loop: "merge_loop E c ps = Inr c' \<Longrightarrow> errors c' = errors c"
proof (induction ps arbitrary: c)
  case Nil
  then show ?case by simp
next
  case (Cons a ps)
  then show ?case
    by (cases a) (auto split: sum.splits dest: errors_addResource)
qed

text \<open>
  The loop of \<open>merge\<close> never throws, leaves the error set alone and writes every entry of
  the other cache over the entry of the same name.
\<close>

lemma merge_loop_effect:
  "distinct (map fst ps) \<Longrightarrow>
   \<exists>c'. merge_loop E c ps = Inr c' \<and> errors c' = errors c \<and>
        (\<forall>p. map_of (resources c') p =
              (case map_of ps p of Some e \<Rightarrow> Some e | None \<Rightarrow> map_of (resources c) p))"
proof (induction ps arbitrary: c)
  case Nil
  then show ?case by simp
next
  case (Cons a ps)
  obtain k img where a: "a = (k, img)" by (cases a)
  let ?c1 = "c\<lparr>resources := AList.update k img (resources c)\<rparr>"
  have same: "\<lparr>image_of = image_of img, width = width img, height = height img\<rparr> = img"
    by (cases img) simp
  have step: "addResource E c (KArr [JStr k, JNum (width img), JNum (height img)]) (image_of img)
                = Inr ?c1"
    by (simp add: addResource_KArr same)
  from Cons.prems a have d: "distinct (map fst ps)" and k: "k \<notin> fst ` set ps" by auto
  from Cons.IH [OF d, of ?c1] obtain c' where
    c': "merge_loop E ?c1 ps = Inr c'" "errors c' = errors ?c1"
        "\<forall>p. map_of (resources c') p =
              (case map_of ps p of Some e \<Rightarrow> Some e | None \<Rightarrow> map_of (resources ?c1) p)"
    by blast
  have kn: "map_of ps k = None" using k by (simp add: map_of_eq_None_iff)
  have "merge_loop E c (a # ps) = Inr c'" using a step c'(1) by simp
  moreover have "errors c' = errors c" using c'(2) by simp
  moreover have "\<forall>p. map_of (resources c') p =
              (case map_of (a # ps) p of Some e \<Rightarrow> Some e | None \<Rightarrow> map_of (resources c) p)"
    using c'(3) a kn by (auto simp add: update_conv' split: option.splits)
  ultimately show ?case by blast
qed

text \<open>No operation on a cache removes an error marker.\<close>

lemma errors_apply_cache_op: "errors c \<subseteq> errors (apply_cache_op E c op)"
proof (cases op)
  case (OpAddResource url img)
  then show ?thesis by (auto split: sum.splits dest: errors_addResource)
next
  case (OpMarkErrorResource url)
  then show ?thesis by (auto simp add: markErrorResource_def)
next
  case (OpMerge res)
  then show ?thesis
    by (cases res) (auto simp add: merge_def split: sum.splits dest: errors_merge_loop)
qed simp_all

lemma errors_run_cache_ops: "errors c \<subseteq> errors (run_cache_ops E c ops)"
proof (induction ops arbitrary: c)
  case Nil
  then show ?case by simp
next
  case (Cons op ops)
  have "errors c \<subseteq> errors (apply_cache_op E c op)" by (rule errors_apply_cache_op)
  also have "\<dots> \<subseteq> errors (run_cache_ops E (apply_cache_op E c op) ops)" by (rule Cons.IH)
  finally show ?case by simp
qed

text \<open>
  C4. Immediately after \<open>markErrorResource(k)\<close>, \<open>isResourceLoaded(k)\<close> returns true,
  whatever the success map holds, for every key \<open>k\<close> that is an array or another value that
  counts as true (a non-empty identifier string). The size-aware flag makes no difference.
  On a key that counts as false (the empty string, \<open>null\<close>, \<open>undefined\<close>, \<open>0\<close>, \<open>NaN\<close>)
  \<open>isResourceLoaded\<close> returns false, on every cache and so after \<open>markErrorResource\<close>
  too.
\<close>

theorem isResourceLoaded_after_markErrorResource:
  "(truthy_key k \<longrightarrow> isResourceLoaded E (markErrorResource c k) k checkSVG = True) \<and>
   (\<not> truthy_key k \<longrightarrow> isResourceLoaded E c' k checkSVG = False)"
  by (simp add: isResourceLoaded_def markErrorResource_def Let_def)

text \<open>
  C4 on the key \<open>['b.png']\<close> and a new cache, which holds no entry at all, and on the keys
  \<open>null\<close>, \<open>undefined\<close> and the empty string, each marked on the cache \<open>svg10\<close>.
\<close>

theorem isResourceLoaded_after_markErrorResource_witness:
  "truthy_key (KArr [JStr ''b.png'']) \<and>
   map_of (resources (markErrorResource (new_ResourceCache :: nat ResourceCache)
                        (KArr [JStr ''b.png'']))) ''b.png'' = None \<and>
   isResourceLoaded browser
     (markErrorResource (new_ResourceCache :: nat ResourceCache) (KArr [JStr ''b.png'']))
     (KArr [JStr ''b.png'']) False = True \<and>
   \<not> truthy_key (KVal JNull) \<and>
   isResourceLoaded browser (markErrorResource svg10 (KVal JNull)) (KVal JNull) False = False \<and>
   \<not> truthy_key (KVal JUndefined) \<and>
   isResourceLoaded browser (markErrorResource svg10 (KVal JUndefined)) (KVal JUndefined) True
     = False \<and>
   \<not> truthy_key (KVal (JStr [])) \<and>
   isResourceLoaded browser (markErrorResource svg10 (KVal (JStr []))) (KVal (JStr [])) True
     = False"
  using isResourceLoaded_after_markErrorResource
          [where k = "KArr [JStr ''b.png'']" and E = browser
             and c = "new_ResourceCache :: nat ResourceCache" and checkSVG = False]
        isResourceLoaded_after_markErrorResource
          [where k = "KVal JNull" and E = browser
             and c' = "markErrorResource svg10 (KVal JNull)" and checkSVG = False]
        isResourceLoaded_after_markErrorResource
          [where k = "KVal JUndefined" and E = browser
             and c' = "markErrorResource svg10 (KVal JUndefined)" and checkSVG = True]
        isResourceLoaded_after_markErrorResource
          [where k = "KVal (JStr [])" and E = browser
             and c' = "markErrorResource svg10 (KVal (JStr []))" and checkSVG = True]
  by (simp add: markErrorResource_def new_ResourceCache_def)

text \<open>
  C4 does not hold for every key: \<open>isResourceLoaded\<close> answers false on a key that counts as
  false before it looks at the error set. Here the key is the empty string.
\<close>

theorem isResourceLoaded_after_markErrorResource_empty_string:
  "isResourceLoaded browser
     (markErrorResource (new_ResourceCache :: nat ResourceCache) (KVal (JStr [])))
     (KVal (JStr [])) False = False"
  by (simp add: isResourceLoaded_def)

text \<open>
  C5. For an SVG resource whose identifier is not in the error set and whose entry has the
  stored size \<open>(sw, sh)\<close>, the size-aware check of a request for \<open>(w, h)\<close> answers true
  exactly when \<open>w \<le> sw\<close> and \<open>h \<le> sh\<close>. With the stored size \<open>(10, 10)\<close> the request
  is unmet at \<open>(20, 20)\<close> and met at \<open>(5, 5)\<close> and \<open>(10, 10)\<close>. If the identifier is
  in the error set, the check answers true whatever the request asks for and whatever the
  cache holds.
\<close>

theorem isResourceLoaded_svg_size:
  "(isSVG E (JStr u) \<noteq> 0 \<and> u \<notin> errors c \<and> map_of (resources c) u = Some e \<and>
    width e = Fin sw \<and> height e = Fin sh
      \<longrightarrow> isResourceLoaded E c (KArr [JStr u, JNum (Fin w), JNum (Fin h)]) True
            = (w \<le> sw \<and> h \<le> sh)) \<and>
   (u \<in> errors c' \<longrightarrow> isResourceLoaded E c' (KArr (JStr u # hints)) checkSVG = True)"
  by (auto simp add: isResourceLoaded_def)

text \<open>
  C5 on the cache \<open>svg10\<close>, whose entry for \<open>a.svg\<close> has the size \<open>(10, 10)\<close>, and on
  the same cache with an error marker for \<open>a.svg\<close>, asked for \<open>(50, 50)\<close> and for
  \<open>(5, 5)\<close>.
\<close>

theorem isResourceLoaded_svg_size_witness:
  "isSVG browser (JStr ''a.svg'') \<noteq> 0 \<and> ''a.svg'' \<notin> errors svg10 \<and>
   map_of (resources svg10) ''a.svg'' = Some \<lparr>image_of = 7, width = Fin 10, height = Fin 10\<rparr> \<and>
   isResourceLoaded browser svg10 (KArr [JStr ''a.svg'', JNum (Fin 20), JNum (Fin 20)]) True = False \<and>
   isResourceLoaded browser svg10 (KArr [JStr ''a.svg'', JNum (Fin 5), JNum (Fin 5)]) True = True \<and>
   isResourceLoaded browser svg10 (KArr [JStr ''a.svg'', JNum (Fin 10), JNum (Fin 10)]) True = True \<and>
   ''a.svg'' \<in> errors (markErrorResource svg10 (KArr [JStr ''a.svg''])) \<and>
   isResourceLoaded browser (markErrorResource svg10 (KArr [JStr ''a.svg'']))
     (KArr [JStr ''a.svg'', JNum (Fin 50), JNum (Fin 50)]) True = True \<and>
   isResourceLoaded browser (markErrorResource svg10 (KArr [JStr ''a.svg'']))
     (KArr [JStr ''a.svg'', JNum (Fin 5), JNum (Fin 5)]) True = True"
proof -
  let ?e = "\<lparr>image_of = 7 :: nat, width = Fin 10, height = Fin 10\<rparr>"
  let ?m = "markErrorResource svg10 (KArr [JStr ''a.svg''])"
  have pre: "isSVG browser (JStr ''a.svg'') \<noteq> 0 \<and> ''a.svg'' \<notin> errors svg10 \<and>
             map_of (resources svg10) ''a.svg'' = Some ?e \<and>
             width ?e = Fin 10 \<and> height ?e = Fin 10"
    by (simp add: svg10_def browser_def svg_suffix_def)
  have marked: "''a.svg'' \<in> errors ?m"
    by (simp add: markErrorResource_def)
  have a: "isResourceLoaded browser svg10
             (KArr [JStr ''a.svg'', JNum (Fin 20), JNum (Fin 20)]) True = False"
    using isResourceLoaded_svg_size
            [where E = browser and u = "''a.svg''" and c = svg10 and e = ?e
               and sw = 10 and sh = 10 and w = 20 and h = 20, THEN conjunct1] pre
    by simp
  have b: "isResourceLoaded browser svg10
             (KArr [JStr ''a.svg'', JNum (Fin 5), JNum (Fin 5)]) True = True"
    using isResourceLoaded_svg_size
            [where E = browser and u = "''a.svg''" and c = svg10 and e = ?e
               and sw = 10 and sh = 10 and w = 5 and h = 5, THEN conjunct1] pre
    by simp
  have c: "isResourceLoaded browser svg10
             (KArr [JStr ''a.svg'', JNum (Fin 10), JNum (Fin 10)]) True = True"
    using isResourceLoaded_svg_size
            [where E = browser and u = "''a.svg''" and c = svg10 and e = ?e
               and sw = 10 and sh = 10 and w = 10 and h = 10, THEN conjunct1] pre
    by simp
  have d: "isResourceLoaded browser ?m
             (KArr [JStr ''a.svg'', JNum (Fin 50), JNum (Fin 50)]) True = True"
    using isResourceLoaded_svg_size
            [where E = browser and u = "''a.svg''" and c' = ?m
               and hints = "[JNum (Fin 50), JNum (Fin 50)]" and checkSVG = True,
             THEN conjunct2] marked
    by simp
  have e: "isResourceLoaded browser ?m
             (KArr [JStr ''a.svg'', JNum (Fin 5), JNum (Fin 5)]) True = True"
    using isResourceLoaded_svg_size
            [where E = browser and u = "''a.svg''" and c' = ?m
               and hints = "[JNum (Fin 5), JNum (Fin 5)]" and checkSVG = True,
             THEN conjunct2] marked
    by simp
  from pre marked a b c d e show ?thesis by simp
qed

text \<open>
  C5 does not hold of every cache that has the entry: once the identifier is in the error
  set the check answers true for any size. The cache is \<open>svg10\<close> after a failed reload of
  \<open>a.svg\<close> at \<open>(20, 20)\<close>.
\<close>

theorem isResourceLoaded_svg_size_error_marker:
  "isSVG browser (JStr ''a.svg'') \<noteq> 0 \<and>
   map_of (resources (markErrorResource svg10 (KArr [JStr ''a.svg'', JNum (Fin 20), JNum (Fin 20)])))
     ''a.svg'' = Some \<lparr>image_of = 7, width = Fin 10, height = Fin 10\<rparr> \<and>
   isResourceLoaded browser
     (markErrorResource svg10 (KArr [JStr ''a.svg'', JNum (Fin 20), JNum (Fin 20)]))
     (KArr [JStr ''a.svg'', JNum (Fin 20), JNum (Fin 20)]) True = True"
  by (simp add: isResourceLoaded_def markErrorResource_def svg10_def browser_def svg_suffix_def)

text \<open>
  The property names of an object are distinct. A new cache has none, and every operation
  keeps them distinct, so the list that models \<open>this.resources\<close> never repeats a name.
\<close>

lemma distinct_addResource:
  "distinct (map fst (resources c)) \<Longrightarrow> addResource E c url img = Inr c' \<Longrightarrow>
   distinct (map fst (resources c'))"
  by (auto simp add: addResource_def distinct_update split: if_splits)

lemma distinct_merge_loop:
  "distinct (map fst (resources c)) \<Longrightarrow> merge_loop E c ps = Inr c' \<Longrightarrow>
   distinct (map fst (resources c'))"
proof (induction ps arbitrary: c)
  case Nil
  then show ?case by simp
next
  case (Cons a ps)
  then show ?case
    by (cases a) (auto split: sum.splits dest: distinct_addResource)
qed

lemma distinct_apply_cache_op:
  "distinct (map fst (resources c)) \<Longrightarrow> distinct (map fst (resources (apply_cache_op E c op)))"
proof (cases op)
  case (OpAddResource url img)
  assume "distinct (map fst (resources c))"
  with OpAddResource show ?thesis by (auto split: sum.splits dest: distinct_addResource)
next
  case (OpMarkErrorResource url)
  assume "distinct (map fst (resources c))"
  with OpMarkErrorResource show ?thesis by (simp add: markErrorResource_def)
next
  case (OpMerge res)
  assume "distinct (map fst (resources c))"
  with OpMerge show ?thesis
    by (cases res) (auto simp add: merge_def split: sum.splits dest: distinct_merge_loop)
qed simp_all

lemma distinct_run_cache_ops:
  "distinct (map fst (resources c)) \<Longrightarrow> distinct (map fst (resources (run_cache_ops E c ops)))"
  by (induction ops arbitrary: c) (simp_all add: distinct_apply_cache_op)

lemma distinct_reachable:
  "distinct (map fst (resources (run_cache_ops E new_ResourceCache ops)))"
  by (rule distinct_run_cache_ops) (simp add: new_ResourceCache_def)

text \<open>
  C6. After \<open>c.merge(other)\<close> every entry of \<open>other\<close> is in \<open>c\<close> under its identifier,
  the entries of \<open>c\<close> under other identifiers are as before, and the error set of \<open>c\<close> is
  unchanged, so that no error marker of \<open>other\<close> is copied. The hypothesis says that
  the list that models \<open>other.resources\<close> does not repeat a property name.
\<close>

theorem merge_copies_entries_only:
  assumes "distinct (map fst (resources other))"
  shows "\<exists>c'. merge E c (Some other) = Inr c' \<and>
           (\<forall>p e. map_of (resources other) p = Some e \<longrightarrow> map_of (resources c') p = Some e) \<and>
           (\<forall>p. map_of (resources other) p = None \<longrightarrow>
                 map_of (resources c') p = map_of (resources c) p) \<and>
           errors c' = errors c"
proof -
  from merge_loop_effect [OF assms, of E c] obtain c' where
    c': "merge_loop E c (resources other) = Inr c'" "errors c' = errors c"
        "\<forall>p. map_of (resources c') p =
              (case map_of (resources other) p of
                 Some e \<Rightarrow> Some e | None \<Rightarrow> map_of (resources c) p)"
    by blast
  have "merge E c (Some other) = Inr c'" using c'(1) by (simp add: merge_def)
  with c'(2,3) show ?thesis by simp
qed

text \<open>
  C6 on \<open>svg10\<close> and \<open>other_cache\<close>: the latter has another entry for \<open>a.svg\<close>, an entry
  for \<open>b.png\<close> and an error marker for \<open>c.png\<close>.
\<close>

theorem merge_copies_entries_only_witness:
  "distinct (map fst (resources other_cache)) \<and>
   (\<exists>c'. merge browser svg10 (Some other_cache) = Inr c' \<and>
      (\<forall>p e. map_of (resources other_cache) p = Some e \<longrightarrow> map_of (resources c') p = Some e) \<and>
      (\<forall>p. map_of (resources other_cache) p = None \<longrightarrow>
            map_of (resources c') p = map_of (resources svg10) p) \<and>
      errors c' = errors svg10)"
  using merge_copies_entries_only [of other_cache browser svg10]
  by (simp add: other_cache_def)

text \<open>
  C9. Once \<open>markErrorResource(k)\<close> has been called, \<open>getImage(k)\<close> returns \<open>null\<close> after
  any sequence of operations on that cache, \<open>addResource(k, img)\<close> included.
\<close>

theorem getImage_after_markErrorResource:
  "getImage E (run_cache_ops E (markErrorResource c k) ops) k = Inr None"
proof -
  have "toString (getImgUrl k) \<in> errors (markErrorResource c k)"
    by (simp add: markErrorResource_def)
  then have "toString (getImgUrl k) \<in> errors (run_cache_ops E (markErrorResource c k) ops)"
    using errors_run_cache_ops by blast
  then show ?thesis by (simp add: getImage_def)
qed

text \<open>
  C9 on \<open>svg10\<close>: after the marker, \<open>addResource\<close> stores a new entry for \<open>a.svg\<close>, and
  \<open>getImage\<close> still returns \<open>null\<close>.
\<close>

theorem getImage_after_markErrorResource_witness:
  "map_of (resources (run_cache_ops browser (markErrorResource svg10 (KArr [JStr ''a.svg'']))
             [OpAddResource (KArr [JStr ''a.svg'', JNum (Fin 64), JNum (Fin 64)]) 9]))
     ''a.svg'' = Some \<lparr>image_of = 9, width = Fin 64, height = Fin 64\<rparr> \<and>
   getImage browser
     (run_cache_ops browser (markErrorResource svg10 (KArr [JStr ''a.svg'']))
        [OpAddResource (KArr [JStr ''a.svg'', JNum (Fin 64), JNum (Fin 64)]) 9])
     (KArr [JStr ''a.svg'']) = Inr None"
  using getImage_after_markErrorResource
          [of browser svg10 "KArr [JStr ''a.svg'']"
              "[OpAddResource (KArr [JStr ''a.svg'', JNum (Fin 64), JNum (Fin 64)]) 9]"]
  by (simp add: addResource_def markErrorResource_def svg10_def)

section \<open>Properties of the render scheduler\<close>

text \<open>
  C3. In every renderer state in which a resource-load batch is outstanding,
  \<open>needToRedraw\<close> returns false, whatever the other flags, the hooks and the map say.
\<close>

theorem needToRedraw_loading:
  "loadingResource r \<Longrightarrow> needToRedraw H r = Inr False"
  by (simp add: needToRedraw_def)

text \<open>
  C3 on a renderer that is loading while it is invalidated and its map is zooming, for a
  layer that draws while interacting.
\<close>

theorem needToRedraw_loading_witness:
  "loadingResource ((settled zooming_map)\<lparr>loadingResource := True, toRedraw := True\<rparr>) \<and>
   toRedraw ((settled zooming_map)\<lparr>loadingResource := True, toRedraw := True\<rparr>) \<and>
   needToRedraw interactive_layer
     ((settled zooming_map)\<lparr>loadingResource := True, toRedraw := True\<rparr>) = Inr False"
  using needToRedraw_loading
          [of "(settled zooming_map)\<lparr>loadingResource := True, toRedraw := True\<rparr>"
              interactive_layer]
  by simp

text \<open>
  C2. While the map is interacting, with no invalidation flag set, no load outstanding and
  \<open>forceRenderOnMoving\<close> unset: for a layer that does not draw while interacting,
  \<open>needToRedraw\<close> returns false, during a pure pan and during a zoom change alike; for a
  layer that draws while interacting it returns false during a pure pan (no pitch, no zoom
  change, no rotation) and true during a zoom change.
\<close>

theorem needToRedraw_interacting:
  assumes "\<not> loadingResource r" and "\<not> toRedraw r"
    and "layer r = Some l" and "layer_getMap l = Some m" and "isInteracting m"
    and "\<not> forceRenderOnMoving (layer_options l)"
  shows "(\<not> drawOnInteracting H \<longrightarrow> needToRedraw H r = Inr False) \<and>
         (drawOnInteracting H \<and> \<not> truthy (JNum (getPitch m)) \<and> isMoving m \<and>
            \<not> isZooming m \<and> \<not> isRotating m \<longrightarrow> needToRedraw H r = Inr False) \<and>
         (drawOnInteracting H \<and> isZooming m \<longrightarrow> needToRedraw H r = Inr True)"
  using assms by (simp add: needToRedraw_def getMap_def)

text \<open>
  C2 on a static layer whose map is zooming, and on an interactive layer whose map is
  panning and then zooming.
\<close>

theorem needToRedraw_interacting_witness:
  "\<not> loadingResource (settled zooming_map) \<and> \<not> toRedraw (settled zooming_map) \<and>
   layer (settled zooming_map) = Some (layer_on zooming_map) \<and>
   layer_getMap (layer_on zooming_map) = Some zooming_map \<and>
   isInteracting zooming_map \<and> isZooming zooming_map \<and>
   \<not> forceRenderOnMoving (layer_options (layer_on zooming_map)) \<and>
   \<not> drawOnInteracting static_layer \<and> drawOnInteracting interactive_layer \<and>
   needToRedraw static_layer (settled zooming_map) = Inr False \<and>
   needToRedraw interactive_layer (settled zooming_map) = Inr True \<and>
   \<not> loadingResource (settled panning_map) \<and> \<not> toRedraw (settled panning_map) \<and>
   layer (settled panning_map) = Some (layer_on panning_map) \<and>
   layer_getMap (layer_on panning_map) = Some panning_map \<and>
   isInteracting panning_map \<and> \<not> truthy (JNum (getPitch panning_map)) \<and>
   isMoving panning_map \<and> \<not> isZooming panning_map \<and> \<not> isRotating panning_map \<and>
   \<not> forceRenderOnMoving (layer_options (layer_on panning_map)) \<and>
   needToRedraw interactive_layer (settled panning_map) = Inr False"
  using needToRedraw_interacting
          [of "settled zooming_map" "layer_on zooming_map" zooming_map static_layer]
        needToRedraw_interacting
          [of "settled zooming_map" "layer_on zooming_map" zooming_map interactive_layer]
        needToRedraw_interacting
          [of "settled panning_map" "layer_on panning_map" panning_map interactive_layer]
  by (simp add: settled_def new_CanvasRenderer_def layer_on_def zooming_map_def
        panning_map_def idle_map_def static_layer_def interactive_layer_def)

text \<open>
  C2 as it was stated asks for true during a zoom change from a layer that does not draw
  while interacting. \<open>needToRedraw\<close> returns false there: it leaves as soon as it finds
  that the layer has no \<open>drawOnInteracting\<close>, before it asks the map.
\<close>

theorem needToRedraw_static_layer_zooming:
  "\<not> loadingResource (settled zooming_map) \<and> \<not> toRedraw (settled zooming_map) \<and>
   \<not> drawOnInteracting static_layer \<and>
   \<not> forceRenderOnMoving (layer_options (layer_on zooming_map)) \<and>
   getMap (settled zooming_map) = Some zooming_map \<and>
   isInteracting zooming_map \<and> isZooming zooming_map \<and>
   needToRedraw static_layer (settled zooming_map) = Inr False"
  by (simp add: needToRedraw_def getMap_def settled_def new_CanvasRenderer_def layer_on_def
        zooming_map_def idle_map_def static_layer_def)

section \<open>Properties of the render surface\<close>

text \<open>
  C10. For a renderer whose layer is on a map, and a point outside the viewport of that map
  (\<open>x < 0\<close>, \<open>x > width\<close>, \<open>y < 0\<close> or \<open>y > height\<close>), \<open>hitDetect\<close> returns false and
  leaves the renderer as it was: the trace has no new call, so no pixel is read.
\<close>

theorem hitDetect_outside_viewport:
  assumes "getMap r = Some m"
    and "js_lt (point_x p) (Fin 0) \<or> js_gt (point_x p) (size_width (getSize m)) \<or>
         js_lt (point_y p) (Fin 0) \<or> js_gt (point_y p) (size_height (getSize m))"
  shows "hitDetect r p = Inr (False, r)"
  using assms by (auto simp add: hitDetect_def getMap_def Let_def split: option.splits)

text \<open>
  C10 on a painted canvas of 800 by 600 whose pixels are all opaque, at the point
  \<open>(900, 10)\<close>.
\<close>

theorem hitDetect_outside_viewport_witness:
  "getMap (painted_canvas (layer_on idle_map)) = Some idle_map \<and>
   js_gt (point_x \<lparr>point_x = Fin 900, point_y = Fin 10\<rparr>) (size_width (getSize idle_map)) \<and>
   hitDetect (painted_canvas (layer_on idle_map)) \<lparr>point_x = Fin 900, point_y = Fin 10\<rparr>
     = Inr (False, painted_canvas (layer_on idle_map))"
  using hitDetect_outside_viewport
          [of "painted_canvas (layer_on idle_map)" idle_map
              "\<lparr>point_x = Fin 900, point_y = Fin 10\<rparr>"]
  by (simp add: getMap_def painted_canvas_def new_CanvasRenderer_def layer_on_def idle_map_def)

text \<open>
  C7. On a layer whose mask has a 2D extent that does not intersect the view extent of the
  renderer, \<open>prepareCanvas\<close> returns the extent of the mask, leaves the clipped flag
  unset and makes no clip call. It throws only when it has to undo a clip without a context
  or to create a canvas without a map.
\<close>

theorem prepareCanvas_mask_disjoint:
  assumes "layer r = Some l" and "getMask l = Some me" and "\<not> intersects E me (extent2D r)"
  shows "case prepareCanvas E H r of
           Inl e \<Rightarrow> (clipped r \<and> ctxt r = None) \<or> (canvas r = None \<and> getMap r = None)
         | Inr (ret, r') \<Rightarrow>
             ret = Some me \<and> \<not> clipped r' \<and> maskExtent r' = Some me \<and>
             (\<exists>as. trace r' = trace r @ as \<and> CtxClip \<notin> set as)"
  using assms
  by (auto simp add: prepareCanvas_def createCanvas_def clearCanvas_def log_def getMap_def Let_def
      split: option.splits sum.splits if_splits)

text \<open>
  C7 on a canvas of 800 by 600 with the view extent \<open>(0, 0, 800, 600)\<close> and a mask of
  extent \<open>(900, 900, 950, 950)\<close>: the call returns, and what it returns is the extent of
  the mask.
\<close>

theorem prepareCanvas_mask_disjoint_witness:
  "layer masked_renderer = Some ((layer_on idle_map)\<lparr>getMask := Some (900, 900, 950, 950)\<rparr>) \<and>
   getMask ((layer_on idle_map)\<lparr>getMask := Some (900, 900, 950, 950)\<rparr>)
     = Some (900, 900, 950, 950) \<and>
   \<not> intersects browser (900, 900, 950, 950) (extent2D masked_renderer) \<and>
   map_sum id fst (prepareCanvas browser static_layer masked_renderer)
     = Inr (Some (900, 900, 950, 950)) \<and>
   (case prepareCanvas browser static_layer masked_renderer of
      Inl e \<Rightarrow> (clipped masked_renderer \<and> ctxt masked_renderer = None) \<or>
               (canvas masked_renderer = None \<and> getMap masked_renderer = None)
    | Inr (ret, r') \<Rightarrow>
        ret = Some (900, 900, 950, 950) \<and> \<not> clipped r' \<and>
        maskExtent r' = Some (900, 900, 950, 950) \<and>
        (\<exists>as. trace r' = trace masked_renderer @ as \<and> CtxClip \<notin> set as))"
  using prepareCanvas_mask_disjoint
          [of masked_renderer "(layer_on idle_map)\<lparr>getMask := Some (900, 900, 950, 950)\<rparr>"
              "(900, 900, 950, 950)" browser static_layer]
  by (simp add: masked_renderer_def painted_canvas_def new_CanvasRenderer_def layer_on_def
        browser_def box_intersects_def prepareCanvas_def clearCanvas_def log_def)

section \<open>Properties of the render cycle\<close>









section \<open>Properties of the resource loader\<close>

lemma fetches_Pending: "fetches (map Pending fs) = fs"
  by (induction fs) (simp_all add: fetches_def)

text \<open>An unmet request on a renderer that has its layer and its cache starts a fetch.\<close>

lemma promiseResource_unmet:
  assumes "resourceCache r = Some c" and "layer r = Some l"
    and "\<not> isResourceLoaded E c (KArr (st a)) True"
  shows "\<exists>st' f. promiseResource E r st a = Inr (st', Pending f) \<and>
                  requested f = st a \<and> fetch_ref f = a"
  using assms by (simp add: promiseResource_def Let_def)

text \<open>
  The invariant of the loop: it returns, every promise it adds is a fetch in flight, the
  joined keys of the requests it fetches differ from each other and from the keys seen
  before, and the fetches follow the order in which the requests are visited.
\<close>

lemma loadResources_loop_inv:
  assumes "resourceCache r = Some c" and "layer r = Some l"
  shows "\<exists>st' fs. loadResources_loop E r c cache st ps us = Inr (st', ps @ map Pending fs) \<and>
           distinct (map (\<lambda>f. join (requested f)) fs) \<and>
           (\<forall>f \<in> set fs. join (requested f) \<notin> cache) \<and>
           (\<forall>f \<in> set fs. \<not> isResourceLoaded E c (KArr (requested f)) True) \<and>
           subseq (map (\<lambda>f. RArr (fetch_ref f)) fs) us"
proof (induction us arbitrary: cache st ps)
  case Nil
  show ?case by (rule exI [of _ st], rule exI [of _ "[]"]) simp
next
  case (Cons u us)
  show ?case
  proof (cases u)
    case RNull
    from Cons.IH [of cache st ps] obtain st' fs where
      h: "loadResources_loop E r c cache st ps us = Inr (st', ps @ map Pending fs)"
         "distinct (map (\<lambda>f. join (requested f)) fs)"
         "\<forall>f \<in> set fs. join (requested f) \<notin> cache"
         "\<forall>f \<in> set fs. \<not> isResourceLoaded E c (KArr (requested f)) True"
         "subseq (map (\<lambda>f. RArr (fetch_ref f)) fs) us"
      by blast
    have "subseq (map (\<lambda>f. RArr (fetch_ref f)) fs) (u # us)"
      using h(5) by (rule list_emb_Cons)
    with RNull h(1-4) show ?thesis
      by (intro exI [of _ st'] exI [of _ fs]) simp
  next
    case (RArr a)
    let ?k = "join (st a)"
    show ?thesis
    proof (cases "st a = [] \<or> ?k \<in> cache")
      case True
      from Cons.IH [of cache st ps] obtain st' fs where
        h: "loadResources_loop E r c cache st ps us = Inr (st', ps @ map Pending fs)"
           "distinct (map (\<lambda>f. join (requested f)) fs)"
           "\<forall>f \<in> set fs. join (requested f) \<notin> cache"
           "\<forall>f \<in> set fs. \<not> isResourceLoaded E c (KArr (requested f)) True"
           "subseq (map (\<lambda>f. RArr (fetch_ref f)) fs) us"
        by blast
      have "loadResources_loop E r c cache st ps (u # us) = Inr (st', ps @ map Pending fs)"
        using RArr True h(1) by (simp add: Let_def)
      moreover have "subseq (map (\<lambda>f. RArr (fetch_ref f)) fs) (u # us)"
        using h(5) by (rule list_emb_Cons)
      ultimately show ?thesis using h(2-4)
        by (intro exI [of _ st'] exI [of _ fs]) simp
    next
      case False
      show ?thesis
      proof (cases "isResourceLoaded E c (KArr (st a)) True")
        case True
        from Cons.IH [of "insert ?k cache" st ps] obtain st' fs where
          h: "loadResources_loop E r c (insert ?k cache) st ps us = Inr (st', ps @ map Pending fs)"
             "distinct (map (\<lambda>f. join (requested f)) fs)"
             "\<forall>f \<in> set fs. join (requested f) \<notin> insert ?k cache"
             "\<forall>f \<in> set fs. \<not> isResourceLoaded E c (KArr (requested f)) True"
             "subseq (map (\<lambda>f. RArr (fetch_ref f)) fs) us"
          by blast
        have "loadResources_loop E r c cache st ps (u # us) = Inr (st', ps @ map Pending fs)"
          using RArr False True h(1) by (simp add: Let_def)
        moreover have "subseq (map (\<lambda>f. RArr (fetch_ref f)) fs) (u # us)"
          using h(5) by (rule list_emb_Cons)
        ultimately show ?thesis using h(2-4)
          by (intro exI [of _ st'] exI [of _ fs]) simp
      next
        case unmet: False
        from promiseResource_unmet [of r c l E st a] assms unmet obtain st1 f where
          p: "promiseResource E r st a = Inr (st1, Pending f)"
             "requested f = st a" "fetch_ref f = a"
          by blast
        from Cons.IH [of "insert ?k cache" st1 "ps @ [Pending f]"] obtain st' fs where
          h: "loadResources_loop E r c (insert ?k cache) st1 (ps @ [Pending f]) us =
                Inr (st', (ps @ [Pending f]) @ map Pending fs)"
             "distinct (map (\<lambda>f. join (requested f)) fs)"
             "\<forall>f \<in> set fs. join (requested f) \<notin> insert ?k cache"
             "\<forall>f \<in> set fs. \<not> isResourceLoaded E c (KArr (requested f)) True"
             "subseq (map (\<lambda>f. RArr (fetch_ref f)) fs) us"
          by blast
        have run: "loadResources_loop E r c cache st ps (u # us)
                     = Inr (st', ps @ map Pending (f # fs))"
          using RArr False unmet p(1) h(1) by (simp add: Let_def)
        have d: "distinct (map (\<lambda>f. join (requested f)) (f # fs))"
          using h(2,3) p(2) by auto
        have n: "\<forall>g \<in> set (f # fs). join (requested g) \<notin> cache"
          using h(3) p(2) False by auto
        have m: "\<forall>g \<in> set (f # fs). \<not> isResourceLoaded E c (KArr (requested g)) True"
          using h(4) p(2) unmet by auto
        have s: "subseq (map (\<lambda>f. RArr (fetch_ref f)) (f # fs)) (u # us)"
          using h(5) p(3) RArr by simp
        from run d n m s show ?thesis
          by (intro exI [of _ st'] exI [of _ "f # fs"]) simp
      qed
    qed
  qed
qed

text \<open>On a renderer without a layer the loop throws at the first unmet request, if any.\<close>

lemma loadResources_loop_no_layer:
  assumes "layer r = None"
  shows "loadResources_loop E r c cache st ps us = Inl TypeError \<or>
         loadResources_loop E r c cache st ps us = Inr (st, ps)"
proof (induction us arbitrary: cache)
  case Nil
  show ?case by simp
next
  case (Cons u us)
  show ?case
  proof (cases u)
    case RNull
    with Cons.IH [of cache] show ?thesis by simp
  next
    case (RArr a)
    have "promiseResource E r st a = Inl TypeError"
      using assms by (simp add: promiseResource_def)
    with RArr Cons.IH [of cache] Cons.IH [of "insert (join (st a)) cache"] show ?thesis
      by (auto simp add: Let_def)
  qed
qed

text \<open>
  C1. For every batch passed to \<open>loadResources\<close>, the fetches the call issues have
  pairwise different joined keys, the key of a request being \<open>url.join('-')\<close> (identifier
  and size hints) at the time the request is visited: at most one fetch is issued for a
  joined key. Every promise is a fetch in flight, every fetch is issued for a request of the
  batch that the size-aware check of the cache reports as not loaded, and the fetches are
  issued in the order of the batch reversed. The call throws only on a renderer that has
  no layer.
\<close>

theorem loadResources_one_fetch_per_joined_key:
  "case loadResources E r st urls of
     Inl e \<Rightarrow> layer r = None
   | Inr (r', st', ps) \<Rightarrow>
       ps = map Pending (fetches ps) \<and>
       distinct (map (\<lambda>f. join (requested f)) (fetches ps)) \<and>
       (case resourceCache r' of
          None \<Rightarrow> False
        | Some c \<Rightarrow>
            \<forall>f \<in> set (fetches ps). \<not> isResourceLoaded E c (KArr (requested f)) True) \<and>
       subseq (map (\<lambda>f. RArr (fetch_ref f)) (fetches ps)) (rev urls)"
proof -
  let ?c = "case resourceCache r of None \<Rightarrow> new_ResourceCache | Some c \<Rightarrow> c"
  let ?r1 = "r\<lparr>resourceCache := Some ?c\<rparr>"
  show ?thesis
  proof (cases "isArrayHasData E urls")
    case False
    then have "loadResources E r st urls = Inr (?r1, st, [])"
      by (simp add: loadResources_def Let_def)
    then show ?thesis by (simp add: fetches_def)
  next
    case True
    show ?thesis
    proof (cases "layer r")
      case None
      then have "layer ?r1 = None" by simp
      from loadResources_loop_no_layer [OF this, of E ?c "{}" st "[]" "rev urls"]
      have "loadResources E r st urls = Inl TypeError \<or>
            loadResources E r st urls = Inr (?r1, st, [])"
        using True by (auto simp add: loadResources_def Let_def)
      with None show ?thesis by (auto simp add: fetches_def)
    next
      case (Some l)
      have "resourceCache ?r1 = Some ?c" and "layer ?r1 = Some l" using Some by simp_all
      from loadResources_loop_inv [OF this, of E "{}" st "[]" "rev urls"] obtain st' fs where
        h: "loadResources_loop E ?r1 ?c {} st [] (rev urls) = Inr (st', map Pending fs)"
           "distinct (map (\<lambda>f. join (requested f)) fs)"
           "\<forall>f \<in> set fs. \<not> isResourceLoaded E ?c (KArr (requested f)) True"
           "subseq (map (\<lambda>f. RArr (fetch_ref f)) fs) (rev urls)"
        by auto
      have "loadResources E r st urls = Inr (?r1, st', map Pending fs)"
        using True h(1) by (simp add: loadResources_def Let_def)
      with h(2-4) show ?thesis by (simp add: fetches_Pending)
    qed
  qed
qed

text \<open>
  C1 on a batch of three requests for \<open>a.svg\<close>, at \<open>(10, 10)\<close>, at \<open>(20, 20)\<close> and at
  \<open>(10, 10)\<close> again in an array of its own, on a renderer without a cache yet. The first
  and the last request join the same key: the call issues two fetches, for the last request
  and for the second, and none for the first.
\<close>

theorem loadResources_one_fetch_per_joined_key_witness:
  "join (batch_store 0) = join (batch_store 2) \<and>
   map_sum id (map fetch_ref \<circ> fetches \<circ> snd \<circ> snd)
     (loadResources browser (settled idle_map) batch_store [RArr 0, RArr 1, RArr 2])
     = Inr [2, 1] \<and>
   map_sum id (map (join \<circ> requested) \<circ> fetches \<circ> snd \<circ> snd)
     (loadResources browser (settled idle_map) batch_store [RArr 0, RArr 1, RArr 2])
     = Inr [''a.svg-10-10'', ''a.svg-20-20''] \<and>
   (case loadResources browser (settled idle_map) batch_store [RArr 0, RArr 1, RArr 2] of
      Inl e \<Rightarrow> layer (settled idle_map) = None
    | Inr (r', st', ps) \<Rightarrow>
        ps = map Pending (fetches ps) \<and>
        distinct (map (\<lambda>f. join (requested f)) (fetches ps)) \<and>
        (case resourceCache r' of
           None \<Rightarrow> False
         | Some c \<Rightarrow>
             \<forall>f \<in> set (fetches ps).
               \<not> isResourceLoaded browser c (KArr (requested f)) True) \<and>
        subseq (map (\<lambda>f. RArr (fetch_ref f)) (fetches ps)) (rev [RArr 0, RArr 1, RArr 2]))"
proof -
  have same: "join (batch_store 0) = join (batch_store 2)"
    by (simp add: batch_store_def)
  have refs: "map_sum id (map fetch_ref \<circ> fetches \<circ> snd \<circ> snd)
                (loadResources browser (settled idle_map) batch_store [RArr 0, RArr 1, RArr 2])
                = Inr [2, 1]"
    by code_simp
  have keys: "map_sum id (map (join \<circ> requested) \<circ> fetches \<circ> snd \<circ> snd)
                (loadResources browser (settled idle_map) batch_store [RArr 0, RArr 1, RArr 2])
                = Inr [''a.svg-10-10'', ''a.svg-20-20'']"
    by code_simp
  from same refs keys
    loadResources_one_fetch_per_joined_key
      [where E = browser and r = "settled idle_map :: (nat, box) CanvasRenderer"
         and st = batch_store and urls = "[RArr 0, RArr 1, RArr 2]"]
  show ?thesis by simp
qed

text \<open>
  C1 as it was stated asks for at most one fetch for an identifier. On a renderer without a
  cache yet, the batch of the two requests \<open>['a.svg', 10, 10]\<close> and
  \<open>['a.svg', 20, 20]\<close> names one identifier twice, and each request is fetched: their
  joined keys, \<open>a.svg-20-20\<close> and \<open>a.svg-10-10\<close>, differ. The second list is what
  \<open>loadImage\<close> receives, the SVG sizes doubled.
\<close>

theorem loadResources_same_identifier_two_fetches:
  "map_sum id (map requested \<circ> fetches \<circ> snd \<circ> snd)
     (loadResources browser (settled idle_map) batch_store [RArr 0, RArr 1]) =
     Inr [[JStr ''a.svg'', JNum (Fin 20), JNum (Fin 20)],
          [JStr ''a.svg'', JNum (Fin 10), JNum (Fin 10)]] \<and>
   map_sum id (map sent \<circ> fetches \<circ> snd \<circ> snd)
     (loadResources browser (settled idle_map) batch_store [RArr 0, RArr 1]) =
     Inr [[JStr ''a.svg'', JNum (Fin 40), JNum (Fin 40)],
          [JStr ''a.svg'', JNum (Fin 20), JNum (Fin 20)]]"
  by code_simp

text \<open>
  The key is taken when the request is visited. An SVG request that occurs twice in a batch
  as the same array is fetched twice in a browser: the first fetch doubles the size hints
  of the array, and the second visit joins another key.
\<close>

lemma loadResources_shared_array_two_fetches:
  "map_sum id (map requested \<circ> fetches \<circ> snd \<circ> snd)
     (loadResources browser (settled idle_map) batch_store [RArr 0, RArr 0]) =
     Inr [[JStr ''a.svg'', JNum (Fin 10), JNum (Fin 10)],
          [JStr ''a.svg'', JNum (Fin 20), JNum (Fin 20)]]"
  by code_simp

end
